theory Spec2Isabelle
  imports Complex_Main
begin

unbundle bit_operations_syntax

section \<open>Synthesis of Mode S extended squitter frames (mlat/beastframes.py)\<close>

text \<open>
  The module \<^verbatim>\<open>mlat/beastframes.py\<close> turns a multilateration result into DF18 frames.
  Its functions are embedded one by one, in the order of the source.

  Conventions of the embedding.
  \<^item> Python integers are \<^typ>\<open>int\<close>; \<^verbatim>\<open>&\<close>, \<^verbatim>\<open>|\<close>, \<^verbatim>\<open><<\<close> and \<^verbatim>\<open>>>\<close> are
    \<open>AND\<close>, \<open>OR\<close>, \<open>push_bit\<close> and \<open>drop_bit\<close>, which agree with Python on negative
    operands too (two's complement of unbounded width, shifts that round down).
  \<^item> Python floats are \<^typ>\<open>real\<close>: arithmetic is exact. Rounding error of binary
    floating point, infinities and NaN are outside the model; the decimal literals of the
    source (\<open>1012.5\<close>, the breakpoints of the zone table) stand for their decimal values.
  \<^item> An optional argument (\<^verbatim>\<open>None\<close> or a number) is a \<^typ>\<open>real option\<close>.
  \<^item> A raise is the left summand of \<open>py_error + 'a\<close>.
  \<^item> A \<^verbatim>\<open>bytearray\<close> is an \<^typ>\<open>int list\<close>; storing into it checks the index and the
    range of the byte, as Python does.
\<close>

subsection \<open>Errors and Python primitives\<close>

datatype py_error = ValueError string | ZeroDivisionError | IndexError

definition bind_r :: "py_error + 'a \<Rightarrow> ('a \<Rightarrow> py_error + 'b) \<Rightarrow> py_error + 'b" where
  "bind_r r k = (case r of Inl e \<Rightarrow> Inl e | Inr v \<Rightarrow> k v)"

text \<open>\<^verbatim>\<open>int(x)\<close> on a float drops the fractional part (rounds towards zero).\<close>

definition py_int :: "real \<Rightarrow> int" where
  "py_int x = (if x < 0 then - \<lfloor>- x\<rfloor> else \<lfloor>x\<rfloor>)"

text \<open>\<^verbatim>\<open>x / y\<close> raises on a zero divisor.\<close>

definition truediv :: "real \<Rightarrow> real \<Rightarrow> py_error + real" where
  "truediv x y = (if y = 0 then Inl ZeroDivisionError else Inr (x / y))"

text \<open>
  \<^verbatim>\<open>math.fmod(x, y)\<close> is C's \<^verbatim>\<open>fmod\<close>: \<open>x - n * y\<close> where \<open>n\<close> is \<open>x / y\<close> with its
  fractional part dropped, so the result has the sign of \<open>x\<close>. It raises \<^verbatim>\<open>ValueError\<close>
  on \<open>y = 0\<close>.
\<close>

definition fmod :: "real \<Rightarrow> real \<Rightarrow> py_error + real" where
  "fmod x y = (if y = 0 then Inl (ValueError ''math domain error'')
               else Inr (x - of_int (py_int (x / y)) * y))"

text \<open>
  \<^verbatim>\<open>bisect.bisect_left(a, x)\<close> of the standard library, with its loop written as a
  recursion on the bounds \<open>lo\<close> and \<open>hi\<close>.
\<close>

function bisect_loop :: "real list \<Rightarrow> real \<Rightarrow> nat \<Rightarrow> nat \<Rightarrow> nat" where
  "bisect_loop a x lo hi =
     (if lo < hi then
        (let mid = (lo + hi) div 2 in
         if a ! mid < x then bisect_loop a x (mid + 1) hi else bisect_loop a x lo mid)
      else lo)"
  by pat_completeness auto
termination
  by (relation "measure (\<lambda>(a, x, lo, hi). hi - lo)") auto

declare bisect_loop.simps [simp del]

definition bisect_left :: "real list \<Rightarrow> real \<Rightarrow> nat" where
  "bisect_left a x = bisect_loop a x 0 (length a)"

text \<open>
  \<^verbatim>\<open>bytearray(n)\<close> and \<^verbatim>\<open>frame[i] = v\<close>: the store raises \<^verbatim>\<open>IndexError\<close> outside the
  array and \<^verbatim>\<open>ValueError\<close> when \<open>v\<close> is not a byte.
\<close>

definition bytearray :: "nat \<Rightarrow> int list" where
  "bytearray n = replicate n 0"

definition setitem :: "int list \<Rightarrow> nat \<Rightarrow> int \<Rightarrow> py_error + int list" where
  "setitem frame i v =
     (if length frame \<le> i then Inl IndexError
      else if v < 0 \<or> 255 < v then Inl (ValueError ''byte must be in range(0, 256)'')
      else Inr (frame[i := v]))"

subsection \<open>The frame variants and the zone table\<close>

definition DF18 :: string where "DF18 = ''DF18''"
definition DF18ANON :: string where "DF18ANON = ''DF18ANON''"
definition DF18TRACK :: string where "DF18TRACK = ''DF18TRACK''"

definition NL_TABLE :: "(real \<times> int) list" where
  "NL_TABLE = [
    (10.47047130, 59), (14.82817437, 58), (18.18626357, 57), (21.02939493, 56),
    (23.54504487, 55), (25.82924707, 54), (27.93898710, 53), (29.91135686, 52),
    (31.77209708, 51), (33.53993436, 50), (35.22899598, 49), (36.85025108, 48),
    (38.41241892, 47), (39.92256684, 46), (41.38651832, 45), (42.80914012, 44),
    (44.19454951, 43), (45.54626723, 42), (46.86733252, 41), (48.16039128, 40),
    (49.42776439, 39), (50.67150166, 38), (51.89342469, 37), (53.09516153, 36),
    (54.27817472, 35), (55.44378444, 34), (56.59318756, 33), (57.72747354, 32),
    (58.84763776, 31), (59.95459277, 30), (61.04917774, 29), (62.13216659, 28),
    (63.20427479, 27), (64.26616523, 26), (65.31845310, 25), (66.36171008, 24),
    (67.39646774, 23), (68.42322022, 22), (69.44242631, 21), (70.45451075, 20),
    (71.45986473, 19), (72.45884545, 18), (73.45177442, 17), (74.43893416, 16),
    (75.42056257, 15), (76.39684391, 14), (77.36789461, 13), (78.33374083, 12),
    (79.29428225, 11), (80.24923213, 10), (81.19801349, 9), (82.13956981, 8),
    (83.07199445, 7), (83.99173563, 6), (84.89166191, 5), (85.75541621, 4),
    (86.53536998, 3), (87.00000000, 2), (90.00000000, 1)]"

definition NL_LATS :: "real list" where
  "NL_LATS = map fst NL_TABLE"

definition NL_VALS :: "int list" where
  "NL_VALS = map snd NL_TABLE"

subsection \<open>Compact position reporting\<close>

definition cpr_nl :: "real \<Rightarrow> int" where
  "cpr_nl lat =
     (let lat = \<bar>lat\<bar>;
          idx = bisect_left NL_LATS lat
      in if idx \<ge> length NL_VALS then 1 else NL_VALS ! idx)"

text \<open>The flag \<open>odd_frame\<close> is a Python \<^verbatim>\<open>bool\<close>; subtracting it subtracts 1 or 0.\<close>

definition cpr_n :: "real \<Rightarrow> bool \<Rightarrow> int" where
  "cpr_n lat odd_frame =
     (let nl = cpr_nl lat - (if odd_frame then 1 else 0)
      in if nl < 1 then 1 else nl)"

definition cpr_mod :: "real \<Rightarrow> real \<Rightarrow> py_error + real" where
  "cpr_mod val modulus =
     bind_r (fmod val modulus) (\<lambda>remainder.
       Inr (if remainder < 0 then remainder + modulus else remainder))"

definition cpr_encode :: "real \<Rightarrow> real \<Rightarrow> bool \<Rightarrow> py_error + (int \<times> int)" where
  "cpr_encode lat lon odd_frame =
     (let nb = push_bit 17 (1::int);
          dlat = 360 / (if odd_frame then 59 else 60)
      in bind_r (cpr_mod lat dlat) (\<lambda>m.
         bind_r (truediv m dlat) (\<lambda>frac.
         let yz = \<lfloor>of_int nb * frac + 0.5\<rfloor>
         in bind_r (truediv (of_int yz) (of_int nb)) (\<lambda>yfrac.
            bind_r (truediv lat dlat) (\<lambda>zone.
            let rlat = dlat * (yfrac + of_int \<lfloor>zone\<rfloor>)
            in bind_r (truediv 360 (of_int (cpr_n rlat odd_frame))) (\<lambda>dlon.
               bind_r (cpr_mod lon dlon) (\<lambda>m'.
               bind_r (truediv m' dlon) (\<lambda>frac'.
               let xz = \<lfloor>of_int nb * frac' + 0.5\<rfloor>
               in Inr (yz AND 0x1FFFF, xz AND 0x1FFFF)))))))))"

subsection \<open>Scalar fields\<close>

definition encode_altitude :: "real option \<Rightarrow> int" where
  "encode_altitude feet =
     (case feet of
        None \<Rightarrow> 0
      | Some ft \<Rightarrow>
          (let index = py_int ((ft + 1012.5) / 25);
               index = (if index < 0 then 0 else if index > 0x7FF then 0x7FF else index)
           in push_bit 1 (index AND 0x7F0) OR 0x010 OR (index AND 0x00F)))"

definition encode_velocity :: "real option \<Rightarrow> bool \<Rightarrow> int" where
  "encode_velocity knots supersonic =
     (case knots of
        None \<Rightarrow> 0
      | Some kt \<Rightarrow>
          (let sign = (if kt < 0 then 0x400 else 0);
               kt = (if kt < 0 then - kt else kt);
               kt = (if supersonic then kt / 4 else kt);
               v = py_int (kt + 1.5);
               v = (if v > 1023 then 1023 else v)
           in v OR sign))"

definition encode_vrate :: "real option \<Rightarrow> int" where
  "encode_vrate fpm =
     (case fpm of
        None \<Rightarrow> 0
      | Some f \<Rightarrow>
          (let sign = (if f < 0 then 0x200 else 0);
               f = (if f < 0 then - f else f);
               v = py_int (f / 64 + 1.5);
               v = (if v > 511 then 511 else v)
           in v OR sign))"

subsection \<open>Frames\<close>

text \<open>
  The checksum \<^verbatim>\<open>modes.crc.parity\<close> belongs to another module. It is a parameter
  \<open>parity\<close> of every function that seals a frame: a function from the first 11 bytes to
  an integer.
\<close>

definition apply_crc :: "(int list \<Rightarrow> int) \<Rightarrow> int list \<Rightarrow> py_error + int list" where
  "apply_crc parity frame =
     (let p = parity (take 11 frame)
      in bind_r (setitem frame 11 (drop_bit 16 p AND 0xFF)) (\<lambda>frame.
         bind_r (setitem frame 12 (drop_bit 8 p AND 0xFF)) (\<lambda>frame.
         bind_r (setitem frame 13 (p AND 0xFF)) (\<lambda>frame.
         Inr frame))))"

definition make_frame_prefix :: "string \<Rightarrow> py_error + (int \<times> int)" where
  "make_frame_prefix df =
     (if df = DF18 then Inr (push_bit 3 18 OR 2, 0)
      else if df = DF18ANON then Inr (push_bit 3 18 OR 5, 0)
      else if df = DF18TRACK then Inr (push_bit 3 18 OR 2, 1)
      else Inl (ValueError (''Unsupported DF '' @ df)))"

definition make_position_frame ::
  "(int list \<Rightarrow> int) \<Rightarrow> int \<Rightarrow> int \<Rightarrow> int \<Rightarrow> int \<Rightarrow> int \<Rightarrow> bool \<Rightarrow> string
     \<Rightarrow> py_error + int list" where
  "make_position_frame parity metype addr elat elon ealt oddflag df =
     bind_r (make_frame_prefix df) (\<lambda>(prefix, imf).
     bind_r (Inr (bytearray 14)) (\<lambda>frame.
     bind_r (setitem frame 0 prefix) (\<lambda>frame.
     bind_r (setitem frame 1 (drop_bit 16 addr AND 0xFF)) (\<lambda>frame.
     bind_r (setitem frame 2 (drop_bit 8 addr AND 0xFF)) (\<lambda>frame.
     bind_r (setitem frame 3 (addr AND 0xFF)) (\<lambda>frame.
     bind_r (setitem frame 4 (push_bit 3 metype OR imf)) (\<lambda>frame.
     bind_r (setitem frame 5 (drop_bit 4 ealt AND 0xFF)) (\<lambda>frame.
     bind_r (setitem frame 6 (push_bit 4 (ealt AND 0x0F))) (\<lambda>frame.
     bind_r (if oddflag then setitem frame 6 (frame ! 6 OR 0x04) else Inr frame) (\<lambda>frame.
     bind_r (setitem frame 6 (frame ! 6 OR (drop_bit 15 elat AND 0x03))) (\<lambda>frame.
     bind_r (setitem frame 7 (drop_bit 7 elat AND 0xFF)) (\<lambda>frame.
     bind_r (setitem frame 8 (push_bit 1 (elat AND 0x7F))) (\<lambda>frame.
     bind_r (setitem frame 8 (frame ! 8 OR (drop_bit 16 elon AND 0x01))) (\<lambda>frame.
     bind_r (setitem frame 9 (drop_bit 8 elon AND 0xFF)) (\<lambda>frame.
     bind_r (setitem frame 10 (elon AND 0xFF)) (\<lambda>frame.
     apply_crc parity frame))))))))))))))))"

definition make_position_frame_pair ::
  "(int list \<Rightarrow> int) \<Rightarrow> int \<Rightarrow> real \<Rightarrow> real \<Rightarrow> real option \<Rightarrow> string
     \<Rightarrow> py_error + (int list \<times> int list)" where
  "make_position_frame_pair parity addr lat lon altitude_ft df =
     (let ealt = encode_altitude altitude_ft
      in bind_r (cpr_encode lat lon False) (\<lambda>(even_lat, even_lon).
         bind_r (cpr_encode lat lon True) (\<lambda>(odd_lat, odd_lon).
         bind_r (make_position_frame parity 18 addr even_lat even_lon ealt False df) (\<lambda>even_frame.
         bind_r (make_position_frame parity 18 addr odd_lat odd_lon ealt True df) (\<lambda>odd_frame.
         Inr (even_frame, odd_frame))))))"

definition make_altitude_only_frame ::
  "(int list \<Rightarrow> int) \<Rightarrow> int \<Rightarrow> real option \<Rightarrow> string \<Rightarrow> py_error + int list" where
  "make_altitude_only_frame parity addr altitude_ft df =
     make_position_frame parity 0 addr 0 0 (encode_altitude altitude_ft) False df"

definition make_velocity_frame ::
  "(int list \<Rightarrow> int) \<Rightarrow> int \<Rightarrow> real option \<Rightarrow> real option \<Rightarrow> real option \<Rightarrow> string
     \<Rightarrow> py_error + int list" where
  "make_velocity_frame parity addr nsvel_knots ewvel_knots vrate_fpm df =
     (let velocities = (case nsvel_knots of None \<Rightarrow> [] | Some v \<Rightarrow> [\<bar>v\<bar>])
                       @ (case ewvel_knots of None \<Rightarrow> [] | Some v \<Rightarrow> [\<bar>v\<bar>]);
          supersonic = list_ex (\<lambda>v. v > 1000) velocities;
          e_ns = encode_velocity nsvel_knots supersonic;
          e_ew = encode_velocity ewvel_knots supersonic;
          e_vr = encode_vrate vrate_fpm
      in bind_r (make_frame_prefix df) (\<lambda>(prefix, imf).
         bind_r (Inr (bytearray 14)) (\<lambda>frame.
         bind_r (setitem frame 0 prefix) (\<lambda>frame.
         bind_r (setitem frame 1 (drop_bit 16 addr AND 0xFF)) (\<lambda>frame.
         bind_r (setitem frame 2 (drop_bit 8 addr AND 0xFF)) (\<lambda>frame.
         bind_r (setitem frame 3 (addr AND 0xFF)) (\<lambda>frame.
         bind_r (setitem frame 4 (push_bit 3 19 OR (if supersonic then 2 else 1))) (\<lambda>frame.
         bind_r (setitem frame 5 (push_bit 7 imf OR (drop_bit 8 e_ew AND 0x07))) (\<lambda>frame.
         bind_r (setitem frame 6 (e_ew AND 0xFF)) (\<lambda>frame.
         bind_r (setitem frame 7 (drop_bit 3 e_ns AND 0xFF)) (\<lambda>frame.
         bind_r (setitem frame 8
                   (push_bit 5 (e_ns AND 0x07) OR 0x10 OR (drop_bit 6 e_vr AND 0x0F))) (\<lambda>frame.
         bind_r (setitem frame 9 (push_bit 2 (e_vr AND 0x3F))) (\<lambda>frame.
         bind_r (setitem frame 10 0) (\<lambda>frame.
         apply_crc parity frame))))))))))))))"

subsection \<open>Rounding as the specification writes it\<close>





subsection \<open>The invariant of the binary search\<close>

text \<open>
  Between \<open>lo\<close> and \<open>hi\<close> lies the first position whose element is not below \<open>x\<close>:
  everything before \<open>lo\<close> is below \<open>x\<close>, nothing from \<open>hi\<close> on is.
\<close>

definition bracket :: "real list \<Rightarrow> real \<Rightarrow> nat \<Rightarrow> nat \<Rightarrow> bool" where
  "bracket a x lo hi \<longleftrightarrow>
     lo \<le> hi \<and> hi \<le> length a \<and> (\<forall>i<lo. a ! i < x)
     \<and> (\<forall>i. hi \<le> i \<and> i < length a \<longrightarrow> x \<le> a ! i)"


section \<open>Properties\<close>

subsection \<open>Truncation and bits\<close>








subsection \<open>Altitude\<close>



subsection \<open>Vertical rate\<close>



subsection \<open>Horizontal velocity\<close>

text \<open>
  C9. A component of magnitude 1021.5 kt encoded without the supersonic scale gives the
  magnitude 1023, the largest value of the ten-bit field, for either sign.
\<close>

theorem encode_velocity_1021_5:
  "encode_velocity (Some 1021.5) False = 1023
   \<and> encode_velocity (Some (- 1021.5)) False AND 0x3FF = 1023"
  by (simp add: encode_velocity_def py_int_def)

subsection \<open>The zone-count lookup\<close>

lemma NL_LATS_sorted: "sorted NL_LATS"
  unfolding NL_LATS_def NL_TABLE_def by (simp add: sorted2 sorted1 del: sorted_wrt.simps)

lemma NL_lengths: "length NL_TABLE = 59" "length NL_LATS = 59" "length NL_VALS = 59"
  unfolding NL_LATS_def NL_VALS_def NL_TABLE_def by simp_all

lemma bisect_loop_done: "\<not> lo < hi \<Longrightarrow> bisect_loop a x lo hi = lo"
  by (subst bisect_loop.simps) simp

lemma bisect_loop_right:
  "lo < hi \<Longrightarrow> a ! ((lo + hi) div 2) < x
     \<Longrightarrow> bisect_loop a x lo hi = bisect_loop a x ((lo + hi) div 2 + 1) hi"
  by (subst bisect_loop.simps) (simp add: Let_def)

lemma bisect_loop_left:
  "lo < hi \<Longrightarrow> \<not> a ! ((lo + hi) div 2) < x
     \<Longrightarrow> bisect_loop a x lo hi = bisect_loop a x lo ((lo + hi) div 2)"
  by (subst bisect_loop.simps) (simp add: Let_def)

lemma bisect_loop_bracket:
  "sorted a \<Longrightarrow> bracket a x lo hi
     \<Longrightarrow> bracket a x (bisect_loop a x lo hi) (bisect_loop a x lo hi)"
proof (induction a x lo hi rule: bisect_loop.induct)
  case (1 a x lo hi)
  show ?case
  proof (cases "lo < hi")
    case False
    with "1.prems" show ?thesis by (simp add: bisect_loop_done bracket_def)
  next
    case True
    define mid where "mid = (lo + hi) div 2"
    have m: "lo \<le> mid" "mid < hi" using True by (simp_all add: mid_def)
    have len: "hi \<le> length a" using "1.prems"(2) by (simp add: bracket_def)
    show ?thesis
    proof (cases "a ! mid < x")
      case lt: True
      have "a ! i < x" if "i < mid + 1" for i
      proof -
        from that have "i \<le> mid" by simp
        with \<open>sorted a\<close> m len have "a ! i \<le> a ! mid"
          by (simp add: sorted_iff_nth_mono)
        with lt show ?thesis by simp
      qed
      with "1.prems"(2) m have b: "bracket a x (mid + 1) hi"
        by (simp add: bracket_def)
      have eq: "bisect_loop a x lo hi = bisect_loop a x (mid + 1) hi"
        using True lt unfolding mid_def by (rule bisect_loop_right)
      from "1.IH"(1) [OF True mid_def lt \<open>sorted a\<close> b] show ?thesis
        by (simp add: eq)
    next
      case ge: False
      have "x \<le> a ! i" if "mid \<le> i" "i < length a" for i
      proof -
        from \<open>sorted a\<close> that have "a ! mid \<le> a ! i"
          by (simp add: sorted_iff_nth_mono)
        with ge show ?thesis by simp
      qed
      with "1.prems"(2) m len have b: "bracket a x lo mid"
        by (simp add: bracket_def)
      have eq: "bisect_loop a x lo hi = bisect_loop a x lo mid"
        using True ge unfolding mid_def by (rule bisect_loop_left)
      from "1.IH"(2) [OF True mid_def ge \<open>sorted a\<close> b] show ?thesis
        by (simp add: eq)
    qed
  qed
qed

lemma bisect_left_first:
  assumes "sorted a"
  shows "bisect_left a x \<le> length a"
    and "i < bisect_left a x \<Longrightarrow> a ! i < x"
    and "bisect_left a x \<le> i \<Longrightarrow> i < length a \<Longrightarrow> x \<le> a ! i"
proof -
  have "bracket a x 0 (length a)" by (simp add: bracket_def)
  from bisect_loop_bracket [OF assms this]
  have b: "bracket a x (bisect_left a x) (bisect_left a x)"
    by (simp add: bisect_left_def)
  from b show "bisect_left a x \<le> length a" by (simp add: bracket_def)
  from b show "i < bisect_left a x \<Longrightarrow> a ! i < x" by (simp add: bracket_def)
  from b show "bisect_left a x \<le> i \<Longrightarrow> i < length a \<Longrightarrow> x \<le> a ! i" by (simp add: bracket_def)
qed

lemma find_first_index:
  assumes "r \<le> length xs" "\<forall>i<r. \<not> P (xs ! i)" "r < length xs \<longrightarrow> P (xs ! r)"
  shows "find P xs = (if r < length xs then Some (xs ! r) else None)"
proof (cases "r < length xs")
  case True
  with assms show ?thesis by (auto simp: find_Some_iff intro!: exI [of _ r])
next
  case False
  with assms have "r = length xs" by simp
  with assms(2) have "\<forall>x\<in>set xs. \<not> P x" by (auto simp: in_set_conv_nth)
  with False show ?thesis by (simp add: find_None_iff)
qed

lemma cpr_nl_first:
  "cpr_nl lat = (case find (\<lambda>row. \<bar>lat\<bar> \<le> fst row) NL_TABLE of
                   None \<Rightarrow> 1 | Some row \<Rightarrow> snd row)"
proof -
  define r where "r = bisect_left NL_LATS \<bar>lat\<bar>"
  note f = bisect_left_first [OF NL_LATS_sorted, where x = "\<bar>lat\<bar>", folded r_def]
  have len: "length NL_TABLE = length NL_LATS" "length NL_VALS = length NL_LATS"
    by (simp_all add: NL_LATS_def NL_VALS_def)
  have nth: "NL_LATS ! i = fst (NL_TABLE ! i)" "NL_VALS ! i = snd (NL_TABLE ! i)"
    if "i < length NL_LATS" for i
    using that by (simp_all add: NL_LATS_def NL_VALS_def)
  have "find (\<lambda>row. \<bar>lat\<bar> \<le> fst row) NL_TABLE
          = (if r < length NL_TABLE then Some (NL_TABLE ! r) else None)"
  proof (rule find_first_index)
    show "r \<le> length NL_TABLE" using f(1) len by simp
    show "\<forall>i<r. \<not> \<bar>lat\<bar> \<le> fst (NL_TABLE ! i)"
    proof (intro allI impI)
      fix i assume "i < r"
      with f(1) f(2) [of i] nth(1) [of i] show "\<not> \<bar>lat\<bar> \<le> fst (NL_TABLE ! i)" by simp
    qed
    show "r < length NL_TABLE \<longrightarrow> \<bar>lat\<bar> \<le> fst (NL_TABLE ! r)"
      using f(3) [of r] nth(1) [of r] len by simp
  qed
  then show ?thesis
    unfolding cpr_nl_def Let_def r_def [symmetric] using nth(2) [of r] len by auto
qed


lemma cpr_n_pos: "1 \<le> cpr_n lat odd_frame"
  by (simp add: cpr_n_def Let_def)



lemma cpr_n_max: "cpr_n lat odd_frame = max 1 (cpr_nl lat - (if odd_frame then 1 else 0))"
  by (simp add: cpr_n_def Let_def max_def)


text \<open>
  C2. The table has 59 rows with ascending breakpoints. \<open>cpr_nl\<close>, which searches it by
  bisection, returns the zone count of the first row whose breakpoint is at least \<open>|lat|\<close>,
  and 1 when there is no such row. \<open>cpr_n\<close> is that count minus 1 for an odd frame (minus 0
  for an even one), raised to 1 when it would be smaller, so it is never zero or negative.
\<close>

theorem cpr_nl_lookup:
  "length NL_TABLE = 59 \<and> sorted (map fst NL_TABLE)
   \<and> cpr_nl lat = (case find (\<lambda>row. \<bar>lat\<bar> \<le> fst row) NL_TABLE of
                     None \<Rightarrow> 1 | Some row \<Rightarrow> snd row)
   \<and> cpr_n lat odd_frame = max 1 (cpr_nl lat - (if odd_frame then 1 else 0))
   \<and> 1 \<le> cpr_n lat odd_frame"
  using NL_lengths(1) NL_LATS_sorted cpr_nl_first [of lat] cpr_n_max [of lat odd_frame]
    cpr_n_pos [of lat odd_frame]
  unfolding NL_LATS_def by blast

theorem cpr_nl_lookup_witness:
  "cpr_nl 47 = 40 \<and> cpr_n 47 True = 39 \<and> cpr_n 47 False = 40
   \<and> cpr_nl (- 10.47047130) = 59 \<and> cpr_nl 87 = 2 \<and> cpr_n 88 True = 1 \<and> cpr_nl 91 = 1"
proof -
  have t: "cpr_nl lat = (case find (\<lambda>row. \<bar>lat\<bar> \<le> fst row) NL_TABLE of
                           None \<Rightarrow> 1 | Some row \<Rightarrow> snd row)" for lat
    using cpr_nl_lookup [of lat True] by blast
  have n: "cpr_n lat odd_frame = max 1 (cpr_nl lat - (if odd_frame then 1 else 0))"
    for lat odd_frame
    using cpr_nl_lookup [of lat odd_frame] by blast
  show ?thesis unfolding n t NL_TABLE_def by simp
qed

subsection \<open>The position encoder\<close>







end
